theory Spec2Isabelle
  imports Complex_Main
begin

section \<open>Data model\<close>

text \<open>
  The two enums of the migration (\<^verbatim>\<open>CREATE TYPE "TaskStatus"\<close>, \<^verbatim>\<open>"TaskPriority"\<close>)
  and the rows of the tables \<^verbatim>\<open>users\<close> and \<^verbatim>\<open>tasks\<close>. Timestamps are milliseconds
  since the epoch (what a JavaScript \<^verbatim>\<open>Date\<close> holds); a nullable column is an option.
  Strings are lists of code units; \<open>length\<close> is JavaScript's \<^verbatim>\<open>.length\<close>.
  The column \<^verbatim>\<open>id\<close> is called \<open>id_task\<close> and \<open>id_user\<close>, since \<open>id\<close> is
  the identity function of HOL.
\<close>

datatype TaskStatus = PENDING | IN_PROGRESS | COMPLETED

datatype TaskPriority = LOW | MEDIUM | HIGH

record User =
  id_user :: string
  user_email :: string
  user_name :: string
  user_passwordHash :: string
  user_createdAt :: int
  user_updatedAt :: int

record Task =
  id_task :: string
  title :: string
  description :: "string option"
  status :: TaskStatus
  priority :: TaskPriority
  dueDate :: "int option"
  createdAt :: int
  updatedAt :: int
  creatorId :: string
  assigneeId :: "string option"

text \<open>
  The projection \<^verbatim>\<open>select: {id: true, name: true, email: true}\<close> of a user, and
  \<^verbatim>\<open>TaskWithRelations = Task & {creator; assignee?}\<close>. The creator is an option only
  because a list of rows does not carry the foreign key that makes it always
  present in the database.
\<close>

record UserSummary =
  summary_id :: string
  summary_name :: string
  summary_email :: string

record TaskWithRelations = Task +
  creator :: "UserSummary option"
  assignee :: "UserSummary option"

section \<open>Strings as JavaScript sees them\<close>

text \<open>
  \<^verbatim>\<open>String.prototype.trim\<close> removes white space and line terminators at both ends;
  of the code units below 256 these are tab, line feed, vertical tab, form feed,
  carriage return, space and the no-break space.
\<close>

definition is_white_space :: "char \<Rightarrow> bool" where
  "is_white_space c = ((of_char c :: nat) \<in> {9, 10, 11, 12, 13, 32, 160})"

definition trim :: "string \<Rightarrow> string" where
  "trim s = rev (dropWhile is_white_space (rev (dropWhile is_white_space s)))"

text \<open>Lower case of the letters A to Z, for the case-insensitive comparison.\<close>

definition to_lower :: "char \<Rightarrow> char" where
  "to_lower c =
     (let n = (of_char c :: nat) in if 65 \<le> n \<and> n \<le> 90 then char_of (n + 32) else c)"

fun starts_with :: "string \<Rightarrow> string \<Rightarrow> bool" where
  "starts_with _ [] = True"
| "starts_with [] (_ # _) = False"
| "starts_with (x # xs) (y # ys) = (x = y \<and> starts_with xs ys)"

fun str_includes :: "string \<Rightarrow> string \<Rightarrow> bool" where
  "str_includes [] needle = (needle = [])"
| "str_includes (x # xs) needle = (starts_with (x # xs) needle \<or> str_includes xs needle)"

text \<open>
  \<^verbatim>\<open>{contains: s, mode: 'insensitive'}\<close>: the column holds \<open>s\<close> as a substring, letter
  case ignored.
\<close>

definition contains_insensitive :: "string \<Rightarrow> string \<Rightarrow> bool" where
  "contains_insensitive hay needle = str_includes (map to_lower hay) (map to_lower needle)"

section \<open>The query language of the store\<close>

text \<open>
  \<^verbatim>\<open>Prisma.TaskWhereInput\<close>, with the keys the service uses. A key that is absent is
  \<open>None\<close>. All keys that are present must hold of a row; \<^verbatim>\<open>OR\<close> asks for one of
  its clauses, \<^verbatim>\<open>AND\<close> for all of them.
\<close>

record DateTimeFilter =
  gte :: "int option"
  lte :: "int option"

datatype TaskWhereInput =
  TaskWhereInput
    (where_OR: "TaskWhereInput list option")
    (where_AND: "TaskWhereInput list option")
    (where_id: "string option")
    (where_status: "TaskStatus option")
    (where_priority: "TaskPriority option")
    (where_assigneeId: "string option")
    (where_creatorId: "string option")
    (where_dueDate: "DateTimeFilter option")
    (where_title_contains: "string option")
    (where_description_contains: "string option")

definition empty_where :: TaskWhereInput where
  "empty_where = TaskWhereInput None None None None None None None None None None"

fun set_OR :: "TaskWhereInput list option \<Rightarrow> TaskWhereInput \<Rightarrow> TaskWhereInput" where
  "set_OR v (TaskWhereInput d a i s p g c dd t de) = TaskWhereInput v a i s p g c dd t de"

fun set_AND :: "TaskWhereInput list option \<Rightarrow> TaskWhereInput \<Rightarrow> TaskWhereInput" where
  "set_AND v (TaskWhereInput d a i s p g c dd t de) = TaskWhereInput d v i s p g c dd t de"

fun set_id :: "string option \<Rightarrow> TaskWhereInput \<Rightarrow> TaskWhereInput" where
  "set_id v (TaskWhereInput d a i s p g c dd t de) = TaskWhereInput d a v s p g c dd t de"

fun set_status :: "TaskStatus option \<Rightarrow> TaskWhereInput \<Rightarrow> TaskWhereInput" where
  "set_status v (TaskWhereInput d a i s p g c dd t de) = TaskWhereInput d a i v p g c dd t de"

fun set_priority :: "TaskPriority option \<Rightarrow> TaskWhereInput \<Rightarrow> TaskWhereInput" where
  "set_priority v (TaskWhereInput d a i s p g c dd t de) = TaskWhereInput d a i s v g c dd t de"

fun set_assigneeId :: "string option \<Rightarrow> TaskWhereInput \<Rightarrow> TaskWhereInput" where
  "set_assigneeId v (TaskWhereInput d a i s p g c dd t de) = TaskWhereInput d a i s p v c dd t de"

fun set_creatorId :: "string option \<Rightarrow> TaskWhereInput \<Rightarrow> TaskWhereInput" where
  "set_creatorId v (TaskWhereInput d a i s p g c dd t de) = TaskWhereInput d a i s p g v dd t de"

fun set_dueDate :: "DateTimeFilter option \<Rightarrow> TaskWhereInput \<Rightarrow> TaskWhereInput" where
  "set_dueDate v (TaskWhereInput d a i s p g c dd t de) = TaskWhereInput d a i s p g c v t de"

fun set_title_contains :: "string option \<Rightarrow> TaskWhereInput \<Rightarrow> TaskWhereInput" where
  "set_title_contains v (TaskWhereInput d a i s p g c dd t de) =
     TaskWhereInput d a i s p g c dd v de"

fun set_description_contains :: "string option \<Rightarrow> TaskWhereInput \<Rightarrow> TaskWhereInput" where
  "set_description_contains v (TaskWhereInput d a i s p g c dd t de) =
     TaskWhereInput d a i s p g c dd t v"

text \<open>
  A comparison with a \<^verbatim>\<open>NULL\<close> column is never true, so a row without due date
  fails every bound, and a row without description holds no substring.
\<close>

definition date_matches :: "DateTimeFilter \<Rightarrow> int option \<Rightarrow> bool" where
  "date_matches f d =
     ((case gte f of None \<Rightarrow> True | Some lo \<Rightarrow> (case d of None \<Rightarrow> False | Some x \<Rightarrow> lo \<le> x)) \<and>
      (case lte f of None \<Rightarrow> True | Some hi \<Rightarrow> (case d of None \<Rightarrow> False | Some x \<Rightarrow> x \<le> hi)))"

definition opt_holds :: "'a option \<Rightarrow> ('a \<Rightarrow> bool) \<Rightarrow> bool" where
  "opt_holds k p = (case k of None \<Rightarrow> True | Some v \<Rightarrow> p v)"

fun task_matches :: "TaskWhereInput \<Rightarrow> 'a Task_scheme \<Rightarrow> bool" where
  "task_matches (TaskWhereInput d a i s p g c dd ti de) t =
     ((case d of None \<Rightarrow> True | Some ws \<Rightarrow> (\<exists>w \<in> set ws. task_matches w t)) \<and>
      (case a of None \<Rightarrow> True | Some ws \<Rightarrow> (\<forall>w \<in> set ws. task_matches w t)) \<and>
      opt_holds i (\<lambda>v. id_task t = v) \<and>
      opt_holds s (\<lambda>v. status t = v) \<and>
      opt_holds p (\<lambda>v. priority t = v) \<and>
      opt_holds g (\<lambda>v. assigneeId t = Some v) \<and>
      opt_holds c (\<lambda>v. creatorId t = v) \<and>
      opt_holds dd (\<lambda>f. date_matches f (dueDate t)) \<and>
      opt_holds ti (\<lambda>v. contains_insensitive (title t) v) \<and>
      opt_holds de (\<lambda>v. case description t of None \<Rightarrow> False
                          | Some x \<Rightarrow> contains_insensitive x v))"

section \<open>Ordering of rows\<close>

text \<open>
  \<^verbatim>\<open>Prisma.TaskOrderByWithRelationInput\<close>: the service sets at most one key, so the
  object is an optional pair of a column and a direction. Enum columns order as
  the enum was created; a missing due date orders after every date (first when
  descending); titles order by code units, which stands for the collation of
  the database. Rows that compare equal keep the order of the table.
\<close>

datatype SortOrder = asc | desc

datatype SortField = ByCreatedAt | ByUpdatedAt | ByDueDate | ByTitle | ByPriority | ByStatus

fun status_rank :: "TaskStatus \<Rightarrow> nat" where
  "status_rank PENDING = 0"
| "status_rank IN_PROGRESS = 1"
| "status_rank COMPLETED = 2"

fun priority_rank :: "TaskPriority \<Rightarrow> nat" where
  "priority_rank LOW = 0"
| "priority_rank MEDIUM = 1"
| "priority_rank HIGH = 2"

fun str_le :: "string \<Rightarrow> string \<Rightarrow> bool" where
  "str_le [] _ = True"
| "str_le (_ # _) [] = False"
| "str_le (x # xs) (y # ys) =
     ((of_char x :: nat) < of_char y \<or> (x = y \<and> str_le xs ys))"

fun date_le :: "int option \<Rightarrow> int option \<Rightarrow> bool" where
  "date_le _ None = True"
| "date_le None (Some _) = False"
| "date_le (Some a) (Some b) = (a \<le> b)"

fun field_le :: "SortField \<Rightarrow> 'a Task_scheme \<Rightarrow> 'a Task_scheme \<Rightarrow> bool" where
  "field_le ByCreatedAt a b = (createdAt a \<le> createdAt b)"
| "field_le ByUpdatedAt a b = (updatedAt a \<le> updatedAt b)"
| "field_le ByDueDate a b = date_le (dueDate a) (dueDate b)"
| "field_le ByTitle a b = str_le (title a) (title b)"
| "field_le ByPriority a b = (priority_rank (priority a) \<le> priority_rank (priority b))"
| "field_le ByStatus a b = (status_rank (status a) \<le> status_rank (status b))"

fun order_le :: "SortField \<times> SortOrder \<Rightarrow> 'a Task_scheme \<Rightarrow> 'a Task_scheme \<Rightarrow> bool" where
  "order_le (f, asc) a b = field_le f a b"
| "order_le (f, desc) a b = field_le f b a"

fun insert_by :: "('a \<Rightarrow> 'a \<Rightarrow> bool) \<Rightarrow> 'a \<Rightarrow> 'a list \<Rightarrow> 'a list" where
  "insert_by le x [] = [x]"
| "insert_by le x (y # ys) = (if le x y then x # y # ys else y # insert_by le x ys)"

definition sort_by :: "('a \<Rightarrow> 'a \<Rightarrow> bool) \<Rightarrow> 'a list \<Rightarrow> 'a list" where
  "sort_by le xs = foldr (insert_by le) xs []"

definition order_rows ::
  "(SortField \<times> SortOrder) option \<Rightarrow> 'a Task_scheme list \<Rightarrow> 'a Task_scheme list" where
  "order_rows orderBy rows = (case orderBy of None \<Rightarrow> rows | Some k \<Rightarrow> sort_by (order_le k) rows)"

section \<open>The store\<close>

text \<open>
  The database is the two tables and the trace of the calls made on the client
  (\<^verbatim>\<open>prisma.task.findFirst\<close>, ...), which is what the mocks of the tests observe.
  Every operation of the client records its call. The store answers every call:
  a lost connection is not part of the model, a write to a row that is not there
  fails as the client does, with the error \<^verbatim>\<open>P2025\<close>.
\<close>

datatype PrismaCall =
  task_findFirst | task_findMany | task_count | task_update | task_delete | user_findUnique

record Database =
  task_rows :: "Task list"
  user_rows :: "User list"
  calls :: "PrismaCall list"

text \<open>What the code can throw: a plain \<^verbatim>\<open>Error\<close> with its message, or an error of the client.\<close>

datatype Exn =
  Error string
| PrismaClientKnownRequestError string "string list option"
| PrismaClientUnknownRequestError
| PrismaClientRustPanicError
| PrismaClientInitializationError
| PrismaClientValidationError

definition record_call :: "PrismaCall \<Rightarrow> Database \<Rightarrow> Database" where
  "record_call c db = db\<lparr>calls := calls db @ [c]\<rparr>"

definition summary_of :: "User \<Rightarrow> UserSummary" where
  "summary_of u =
     \<lparr>summary_id = id_user u, summary_name = user_name u, summary_email = user_email u\<rparr>"

definition find_user :: "User list \<Rightarrow> string \<Rightarrow> User option" where
  "find_user us i = find (\<lambda>u. id_user u = i) us"

text \<open>The \<^verbatim>\<open>include: {creator, assignee}\<close> of every query that returns tasks.\<close>

definition include_relations :: "User list \<Rightarrow> Task \<Rightarrow> TaskWithRelations" where
  "include_relations us t =
     \<lparr>id_task = id_task t, title = title t, description = description t, status = status t,
      priority = priority t, dueDate = dueDate t, createdAt = createdAt t,
      updatedAt = updatedAt t, creatorId = creatorId t, assigneeId = assigneeId t,
      creator = map_option summary_of (find_user us (creatorId t)),
      assignee = (case assigneeId t of None \<Rightarrow> None
                  | Some a \<Rightarrow> map_option summary_of (find_user us a))\<rparr>"

definition prisma_task_findFirst :: "TaskWhereInput \<Rightarrow> Database \<Rightarrow> Task option \<times> Database" where
  "prisma_task_findFirst w db = (find (task_matches w) (task_rows db), record_call task_findFirst db)"

definition prisma_task_findMany ::
  "TaskWhereInput \<Rightarrow> (SortField \<times> SortOrder) option \<Rightarrow> nat option \<Rightarrow> nat \<Rightarrow> Database
   \<Rightarrow> TaskWithRelations list \<times> Database" where
  "prisma_task_findMany w orderBy skip tk db =
     (map (include_relations (user_rows db))
        (take tk (drop (case skip of None \<Rightarrow> 0 | Some n \<Rightarrow> n)
           (order_rows orderBy (filter (task_matches w) (task_rows db))))),
      record_call task_findMany db)"

definition prisma_task_count :: "TaskWhereInput \<Rightarrow> Database \<Rightarrow> int \<times> Database" where
  "prisma_task_count w db =
     (int (length (filter (task_matches w) (task_rows db))), record_call task_count db)"

definition prisma_user_findUnique :: "string \<Rightarrow> Database \<Rightarrow> User option \<times> Database" where
  "prisma_user_findUnique i db = (find_user (user_rows db) i, record_call user_findUnique db)"

text \<open>
  \<^verbatim>\<open>Prisma.TaskUpdateInput\<close>: a key that is absent leaves its column alone. The
  relation \<^verbatim>\<open>assignee\<close> is set with \<^verbatim>\<open>{disconnect: true}\<close> or \<^verbatim>\<open>{connect: {id}}\<close>.
\<close>

datatype AssigneeRelation = disconnect | connect string

record TaskUpdateInput =
  data_title :: "string option"
  data_description :: "string option"
  data_status :: "TaskStatus option"
  data_priority :: "TaskPriority option"
  data_dueDate :: "int option option"
  data_assignee :: "AssigneeRelation option"

definition empty_update :: TaskUpdateInput where
  "empty_update =
     \<lparr>data_title = None, data_description = None, data_status = None, data_priority = None,
      data_dueDate = None, data_assignee = None\<rparr>"

text \<open>
  Modelled from the spec: the schema of the client (\<^verbatim>\<open>schema.prisma\<close>) is missing. The
  migration gives \<^verbatim>\<open>updated_at\<close> no default, and the requirements say that an update
  changes the modification timestamp: an update sets \<open>updatedAt\<close> to the time
  \<open>now\<close> of the call.
\<close>

definition apply_update :: "int \<Rightarrow> TaskUpdateInput \<Rightarrow> Task \<Rightarrow> Task" where
  "apply_update now d t =
     t\<lparr>title := (case data_title d of None \<Rightarrow> title t | Some v \<Rightarrow> v),
       description := (case data_description d of None \<Rightarrow> description t | Some v \<Rightarrow> Some v),
       status := (case data_status d of None \<Rightarrow> status t | Some v \<Rightarrow> v),
       priority := (case data_priority d of None \<Rightarrow> priority t | Some v \<Rightarrow> v),
       dueDate := (case data_dueDate d of None \<Rightarrow> dueDate t | Some v \<Rightarrow> v),
       assigneeId := (case data_assignee d of None \<Rightarrow> assigneeId t
                      | Some disconnect \<Rightarrow> None
                      | Some (connect u) \<Rightarrow> Some u),
       updatedAt := now\<rparr>"

definition record_not_found :: Exn where
  "record_not_found = PrismaClientKnownRequestError ''P2025'' None"

definition connect_fails :: "TaskUpdateInput \<Rightarrow> Database \<Rightarrow> bool" where
  "connect_fails d db =
     (case data_assignee d of Some (connect u) \<Rightarrow> find_user (user_rows db) u = None
      | _ \<Rightarrow> False)"

definition prisma_task_update ::
  "int \<Rightarrow> string \<Rightarrow> TaskUpdateInput \<Rightarrow> Database \<Rightarrow> (Exn + TaskWithRelations) \<times> Database" where
  "prisma_task_update now i d db =
     (let db1 = record_call task_update db in
      case find (\<lambda>t. id_task t = i) (task_rows db) of
        None \<Rightarrow> (Inl record_not_found, db1)
      | Some t \<Rightarrow>
          if connect_fails d db then (Inl record_not_found, db1)
          else (Inr (include_relations (user_rows db) (apply_update now d t)),
                db1\<lparr>task_rows :=
                  map (\<lambda>r. if id_task r = i then apply_update now d r else r) (task_rows db)\<rparr>))"

definition prisma_task_delete :: "string \<Rightarrow> Database \<Rightarrow> (Exn + unit) \<times> Database" where
  "prisma_task_delete i db =
     (let db1 = record_call task_delete db in
      case find (\<lambda>t. id_task t = i) (task_rows db) of
        None \<Rightarrow> (Inl record_not_found, db1)
      | Some t \<Rightarrow> (Inr (), db1\<lparr>task_rows := filter (\<lambda>r. id_task r \<noteq> i) (task_rows db)\<rparr>))"

section \<open>Translation of store errors\<close>

record DatabaseError =
  error_code :: string
  error_message :: string
  error_field :: "string option"

fun handleDatabaseError :: "Exn \<Rightarrow> DatabaseError" where
  "handleDatabaseError (PrismaClientKnownRequestError c target) =
     (if c = ''P2002'' then
        (let field = (case target of Some (f # _) \<Rightarrow> Some f | _ \<Rightarrow> None) in
         \<lparr>error_code = ''UNIQUE_CONSTRAINT_VIOLATION'',
          error_message = ''A record with this '' @
            (case field of Some f \<Rightarrow> (if f \<noteq> [] then f else ''value'') | None \<Rightarrow> ''value'') @
            '' already exists'',
          error_field = field\<rparr>)
      else if c = ''P2025'' then
        \<lparr>error_code = ''RECORD_NOT_FOUND'',
         error_message = ''The requested record was not found'', error_field = None\<rparr>
      else if c = ''P2003'' then
        \<lparr>error_code = ''FOREIGN_KEY_CONSTRAINT_VIOLATION'',
         error_message = ''Referenced record does not exist'', error_field = None\<rparr>
      else if c = ''P2014'' then
        \<lparr>error_code = ''REQUIRED_RELATION_VIOLATION'',
         error_message = ''The change would violate a required relation'', error_field = None\<rparr>
      else
        \<lparr>error_code = ''DATABASE_ERROR'',
         error_message = ''A database error occurred'', error_field = None\<rparr>)"
| "handleDatabaseError PrismaClientUnknownRequestError =
     \<lparr>error_code = ''UNKNOWN_DATABASE_ERROR'',
      error_message = ''An unknown database error occurred'', error_field = None\<rparr>"
| "handleDatabaseError PrismaClientRustPanicError =
     \<lparr>error_code = ''DATABASE_PANIC'',
      error_message = ''Database engine encountered an error'', error_field = None\<rparr>"
| "handleDatabaseError PrismaClientInitializationError =
     \<lparr>error_code = ''DATABASE_INITIALIZATION_ERROR'',
      error_message = ''Failed to initialize database connection'', error_field = None\<rparr>"
| "handleDatabaseError PrismaClientValidationError =
     \<lparr>error_code = ''VALIDATION_ERROR'',
      error_message = ''Invalid data provided to database'', error_field = None\<rparr>"
| "handleDatabaseError (Error m) =
     \<lparr>error_code = ''INTERNAL_ERROR'',
      error_message = ''An internal error occurred'', error_field = None\<rparr>"

section \<open>Validation schemas\<close>

text \<open>
  The schemas check the keys in the order they are declared and stop at the first
  failure; the result is the message of that failure or the converted value
  (strings trimmed, defaults filled in). Messages that a schema does not override
  are the default texts of the validation library. The types of the input
  records already exclude what TypeScript excludes: an enum holds one of its
  values, a date is a valid date, \<open>page\<close> and \<open>limit\<close> are integers.
\<close>

record TaskUpdateData =
  upd_title :: "string option"
  upd_description :: "string option"
  upd_status :: "TaskStatus option"
  upd_priority :: "TaskPriority option"
  upd_dueDate :: "int option option"
  upd_assigneeId :: "string option option"

definition taskUpdateSchema_validate :: "TaskUpdateData \<Rightarrow> string + TaskUpdateData" where
  \<open>taskUpdateSchema_validate d =
     (let t = map_option trim (upd_title d); de = map_option trim (upd_description d) in
      if t = Some [] then Inl ''Task title cannot be empty''
      else if (case t of Some s \<Rightarrow> length s > 255 | None \<Rightarrow> False)
        then Inl ''Task title must be less than 255 characters''
      else if (case de of Some s \<Rightarrow> length s > 2000 | None \<Rightarrow> False)
        then Inl ''Task description must be less than 2000 characters''
      else if upd_assigneeId d = Some (Some [])
        then Inl ''"assigneeId" is not allowed to be empty''
      else Inr (d\<lparr>upd_title := t, upd_description := de\<rparr>))\<close>

record TaskFilterData =
  flt_status :: "TaskStatus option"
  flt_priority :: "TaskPriority option"
  flt_assigneeId :: "string option"
  flt_creatorId :: "string option"
  flt_dueDateFrom :: "int option"
  flt_dueDateTo :: "int option"
  flt_search :: "string option"
  flt_page :: "int option"
  flt_limit :: "int option"
  flt_sortBy :: "string option"
  flt_sortOrder :: "SortOrder option"

record TaskFilterValue =
  v_status :: "TaskStatus option"
  v_priority :: "TaskPriority option"
  v_assigneeId :: "string option"
  v_creatorId :: "string option"
  v_dueDateFrom :: "int option"
  v_dueDateTo :: "int option"
  v_search :: "string option"
  v_page :: int
  v_limit :: int
  v_sortBy :: string
  v_sortOrder :: SortOrder

definition valid_sortBy :: "string list" where
  "valid_sortBy = [''createdAt'', ''updatedAt'', ''dueDate'', ''title'', ''priority'', ''status'']"

definition taskFilterSchema_validate :: "TaskFilterData \<Rightarrow> string + TaskFilterValue" where
  \<open>taskFilterSchema_validate f =
     (let search = map_option trim (flt_search f);
          page = (case flt_page f of None \<Rightarrow> 1 | Some n \<Rightarrow> n);
          limit = (case flt_limit f of None \<Rightarrow> 20 | Some n \<Rightarrow> n);
          sortBy = (case flt_sortBy f of None \<Rightarrow> ''createdAt'' | Some s \<Rightarrow> s);
          sortOrder = (case flt_sortOrder f of None \<Rightarrow> desc | Some s \<Rightarrow> s) in
      if flt_assigneeId f = Some [] then Inl ''"assigneeId" is not allowed to be empty''
      else if flt_creatorId f = Some [] then Inl ''"creatorId" is not allowed to be empty''
      else if search = Some [] then Inl ''"search" is not allowed to be empty''
      else if (case search of Some s \<Rightarrow> length s < 2 | None \<Rightarrow> False)
        then Inl ''Search query must be at least 2 characters long''
      else if (case search of Some s \<Rightarrow> length s > 255 | None \<Rightarrow> False)
        then Inl ''Search query must be less than 255 characters''
      else if page < 1 then Inl ''"page" must be greater than or equal to 1''
      else if limit < 1 then Inl ''"limit" must be greater than or equal to 1''
      else if limit > 100 then Inl ''"limit" must be less than or equal to 100''
      else if sortBy \<notin> set valid_sortBy
        then Inl ''"sortBy" must be one of [createdAt, updatedAt, dueDate, title, priority, status]''
      else Inr \<lparr>v_status = flt_status f, v_priority = flt_priority f,
                v_assigneeId = flt_assigneeId f, v_creatorId = flt_creatorId f,
                v_dueDateFrom = flt_dueDateFrom f, v_dueDateTo = flt_dueDateTo f,
                v_search = search, v_page = page, v_limit = limit,
                v_sortBy = sortBy, v_sortOrder = sortOrder\<rparr>)\<close>

section \<open>The task service\<close>

record TaskListResult =
  tasks :: "TaskWithRelations list"
  total :: int
  page :: int
  limit :: int
  totalPages :: int

text \<open>
  The clauses \<^verbatim>\<open>{creatorId: userId}\<close> and \<^verbatim>\<open>{assigneeId: userId}\<close>, and the search
  clauses on title and description.
\<close>

definition visible_to :: "string \<Rightarrow> TaskWhereInput list" where
  "visible_to userId =
     [set_creatorId (Some userId) empty_where, set_assigneeId (Some userId) empty_where]"

definition text_contains :: "string \<Rightarrow> TaskWhereInput list" where
  "text_contains q =
     [set_title_contains (Some q) empty_where, set_description_contains (Some q) empty_where]"

text \<open>The \<^verbatim>\<open>catch\<close> that translates whatever was thrown into a new \<^verbatim>\<open>Error\<close>.\<close>

definition rethrow_translated :: "Exn \<Rightarrow> Exn" where
  "rethrow_translated e = Error (error_message (handleDatabaseError e))"

text \<open>
  \<^verbatim>\<open>getUserTasks\<close>. A string is truthy when it is not empty; an enum value and a date
  always are. The where clause is built by the same sequence of assignments as in
  the source, the last of which moves the visibility clause under \<^verbatim>\<open>AND\<close> and
  deletes the key \<^verbatim>\<open>OR\<close>.
\<close>

definition build_where :: "string \<Rightarrow> TaskFilterValue \<Rightarrow> TaskWhereInput" where
  "build_where userId v =
     (let w0 = set_OR (Some (visible_to userId)) empty_where;
          w1 = (case v_status v of Some s \<Rightarrow> set_status (Some s) w0 | None \<Rightarrow> w0);
          w2 = (case v_priority v of Some p \<Rightarrow> set_priority (Some p) w1 | None \<Rightarrow> w1);
          w3 = (case v_assigneeId v of
                  Some a \<Rightarrow> if a \<noteq> [] then set_assigneeId (Some a) w2 else w2
                | None \<Rightarrow> w2);
          w4 = (case v_creatorId v of
                  Some c \<Rightarrow> if c \<noteq> [] then set_creatorId (Some c) w3 else w3
                | None \<Rightarrow> w3);
          w5 = (if v_dueDateFrom v \<noteq> None \<or> v_dueDateTo v \<noteq> None
                then set_dueDate (Some \<lparr>gte = v_dueDateFrom v, lte = v_dueDateTo v\<rparr>) w4
                else w4)
      in case v_search v of
           Some q \<Rightarrow>
             if q \<noteq> [] then
               set_OR None
                 (set_AND (Some [set_OR (Some (visible_to userId)) empty_where,
                                 set_OR (Some (text_contains q)) empty_where]) w5)
             else w5
         | None \<Rightarrow> w5)"

definition build_orderBy :: "TaskFilterValue \<Rightarrow> (SortField \<times> SortOrder) option" where
  "build_orderBy v =
     (if v_sortBy v = ''createdAt'' then Some (ByCreatedAt, v_sortOrder v)
      else if v_sortBy v = ''updatedAt'' then Some (ByUpdatedAt, v_sortOrder v)
      else if v_sortBy v = ''dueDate'' then Some (ByDueDate, v_sortOrder v)
      else if v_sortBy v = ''title'' then Some (ByTitle, v_sortOrder v)
      else if v_sortBy v = ''priority'' then Some (ByPriority, v_sortOrder v)
      else if v_sortBy v = ''status'' then Some (ByStatus, v_sortOrder v)
      else None)"

definition getUserTasks_try ::
  "string \<Rightarrow> TaskFilterValue \<Rightarrow> Database \<Rightarrow> (Exn + TaskListResult) \<times> Database" where
  "getUserTasks_try userId v db =
     (let whereClause = build_where userId v;
          skip = (v_page v - 1) * v_limit v;
          orderBy = build_orderBy v;
          (found, db1) = prisma_task_findMany whereClause orderBy (Some (nat skip))
                           (nat (v_limit v)) db;
          (count, db2) = prisma_task_count whereClause db1
      in (Inr \<lparr>tasks = found, total = count, page = v_page v, limit = v_limit v,
               totalPages = \<lceil>real_of_int count / real_of_int (v_limit v)\<rceil>\<rparr>, db2))"

definition getUserTasks ::
  "string \<Rightarrow> TaskFilterData \<Rightarrow> Database \<Rightarrow> (Exn + TaskListResult) \<times> Database" where
  "getUserTasks userId filters db =
     (case taskFilterSchema_validate filters of
        Inl m \<Rightarrow> (Inl (Error (''Validation error: '' @ m)), db)
      | Inr v \<Rightarrow>
          (case getUserTasks_try userId v db of
             (Inl e, db') \<Rightarrow> (Inl (rethrow_translated e), db')
           | (Inr r, db') \<Rightarrow> (Inr r, db')))"

text \<open>
  \<^verbatim>\<open>updateTask\<close>: validation, then inside the \<^verbatim>\<open>try\<close> the read with the visibility
  clause, the lookup of the new assignee, and the write. The \<^verbatim>\<open>catch\<close> lets the two
  errors of the service through and translates everything else.
\<close>

definition not_found_or_denied :: Exn where
  "not_found_or_denied = Error ''Task not found or access denied''"

definition assignee_missing :: Exn where
  "assignee_missing = Error ''Assigned user does not exist''"

definition verify_assignee :: "string option option \<Rightarrow> Database \<Rightarrow> Exn option \<times> Database" where
  "verify_assignee a db =
     (case a of
        Some (Some u) \<Rightarrow>
          if u \<noteq> [] then
            (let (found, db1) = prisma_user_findUnique u db
             in (if found = None then Some assignee_missing else None, db1))
          else (None, db)
      | _ \<Rightarrow> (None, db))"

definition build_updatePayload :: "TaskUpdateData \<Rightarrow> TaskUpdateInput" where
  "build_updatePayload v =
     \<lparr>data_title = upd_title v, data_description = upd_description v,
      data_status = upd_status v, data_priority = upd_priority v,
      data_dueDate = upd_dueDate v,
      data_assignee = (case upd_assigneeId v of
                         None \<Rightarrow> None
                       | Some None \<Rightarrow> Some disconnect
                       | Some (Some u) \<Rightarrow> Some (connect u))\<rparr>"

definition updateTask_try ::
  "int \<Rightarrow> string \<Rightarrow> string \<Rightarrow> TaskUpdateData \<Rightarrow> Database
   \<Rightarrow> (Exn + TaskWithRelations) \<times> Database" where
  "updateTask_try now taskId userId v db =
     (let (existingTask, db1) =
            prisma_task_findFirst
              (set_OR (Some (visible_to userId)) (set_id (Some taskId) empty_where)) db
      in case existingTask of
           None \<Rightarrow> (Inl not_found_or_denied, db1)
         | Some _ \<Rightarrow>
             (case verify_assignee (upd_assigneeId v) db1 of
                (Some e, db2) \<Rightarrow> (Inl e, db2)
              | (None, db2) \<Rightarrow> prisma_task_update now taskId (build_updatePayload v) db2))"

definition updateTask_catch :: "Exn \<Rightarrow> Exn" where
  "updateTask_catch e =
     (case e of
        Error m \<Rightarrow>
          if m = ''Task not found or access denied'' \<or> m = ''Assigned user does not exist''
          then e else rethrow_translated e
      | _ \<Rightarrow> rethrow_translated e)"

definition updateTask ::
  "int \<Rightarrow> string \<Rightarrow> string \<Rightarrow> TaskUpdateData \<Rightarrow> Database
   \<Rightarrow> (Exn + TaskWithRelations) \<times> Database" where
  "updateTask now taskId userId updateData db =
     (case taskUpdateSchema_validate updateData of
        Inl m \<Rightarrow> (Inl (Error (''Validation error: '' @ m)), db)
      | Inr v \<Rightarrow>
          (case updateTask_try now taskId userId v db of
             (Inl e, db') \<Rightarrow> (Inl (updateTask_catch e), db')
           | (Inr r, db') \<Rightarrow> (Inr r, db')))"

text \<open>\<^verbatim>\<open>deleteTask\<close>: the read asks for the creator, the \<^verbatim>\<open>catch\<close> lets its own error through.\<close>

definition deleteTask_try :: "string \<Rightarrow> string \<Rightarrow> Database \<Rightarrow> (Exn + unit) \<times> Database" where
  "deleteTask_try taskId userId db =
     (let (existingTask, db1) =
            prisma_task_findFirst
              (set_creatorId (Some userId) (set_id (Some taskId) empty_where)) db
      in case existingTask of
           None \<Rightarrow> (Inl not_found_or_denied, db1)
         | Some _ \<Rightarrow> prisma_task_delete taskId db1)"

definition deleteTask_catch :: "Exn \<Rightarrow> Exn" where
  "deleteTask_catch e =
     (case e of
        Error m \<Rightarrow> if m = ''Task not found or access denied'' then e else rethrow_translated e
      | _ \<Rightarrow> rethrow_translated e)"

definition deleteTask :: "string \<Rightarrow> string \<Rightarrow> Database \<Rightarrow> (Exn + unit) \<times> Database" where
  "deleteTask taskId userId db =
     (case deleteTask_try taskId userId db of
        (Inl e, db') \<Rightarrow> (Inl (deleteTask_catch e), db')
      | (Inr r, db') \<Rightarrow> (Inr r, db'))"

text \<open>
  \<^verbatim>\<open>updateTaskStatus\<close>: the same read as \<^verbatim>\<open>updateTask\<close>, a write of the status alone,
  and a \<^verbatim>\<open>catch\<close> that translates every error, with no exception for its own.
\<close>

definition updateTaskStatus_try ::
  "int \<Rightarrow> string \<Rightarrow> string \<Rightarrow> TaskStatus \<Rightarrow> Database
   \<Rightarrow> (Exn + TaskWithRelations) \<times> Database" where
  "updateTaskStatus_try now taskId userId st db =
     (let (existingTask, db1) =
            prisma_task_findFirst
              (set_OR (Some (visible_to userId)) (set_id (Some taskId) empty_where)) db
      in case existingTask of
           None \<Rightarrow> (Inl not_found_or_denied, db1)
         | Some _ \<Rightarrow> prisma_task_update now taskId (empty_update\<lparr>data_status := Some st\<rparr>) db1)"

definition updateTaskStatus ::
  "int \<Rightarrow> string \<Rightarrow> string \<Rightarrow> TaskStatus \<Rightarrow> Database
   \<Rightarrow> (Exn + TaskWithRelations) \<times> Database" where
  "updateTaskStatus now taskId userId st db =
     (case updateTaskStatus_try now taskId userId st db of
        (Inl e, db') \<Rightarrow> (Inl (rethrow_translated e), db')
      | (Inr r, db') \<Rightarrow> (Inr r, db'))"

text \<open>
  \<^verbatim>\<open>searchTasks\<close>: nothing is asked of the store when the query is blank; otherwise
  one read with the untrimmed query, newest update first, at most 50 rows.
\<close>

definition search_where :: "string \<Rightarrow> string \<Rightarrow> TaskWhereInput" where
  "search_where userId searchQuery =
     set_AND (Some [set_OR (Some (visible_to userId)) empty_where,
                    set_OR (Some (text_contains searchQuery)) empty_where]) empty_where"

definition searchTasks_try ::
  "string \<Rightarrow> string \<Rightarrow> Database \<Rightarrow> (Exn + TaskWithRelations list) \<times> Database" where
  "searchTasks_try userId searchQuery db =
     (let (found, db1) =
            prisma_task_findMany (search_where userId searchQuery)
              (Some (ByUpdatedAt, desc)) None 50 db
      in (Inr found, db1))"

definition searchTasks ::
  "string \<Rightarrow> string \<Rightarrow> Database \<Rightarrow> (Exn + TaskWithRelations list) \<times> Database" where
  "searchTasks userId searchQuery db =
     (if trim searchQuery = [] then (Inr [], db)
      else (case searchTasks_try userId searchQuery db of
              (Inl e, db') \<Rightarrow> (Inl (rethrow_translated e), db')
            | (Inr r, db') \<Rightarrow> (Inr r, db')))"

section \<open>The controllers of search and status update\<close>

text \<open>
  A response is a status code with either the data of a success or the code and
  message of an error. The request gives the authenticated user, if any. A query
  parameter is absent, a string, or something else (an array, an object).
\<close>

datatype 'a Response = Json nat 'a | JsonError nat string string

datatype QueryParam = q_undefined | q_string string | q_other

record SearchData =
  search_tasks :: "TaskWithRelations list"
  search_query :: string
  search_count :: nat

definition controller_searchTasks ::
  "string option \<Rightarrow> QueryParam \<Rightarrow> Database \<Rightarrow> SearchData Response \<times> Database" where
  "controller_searchTasks user q db =
     (case user of
        None \<Rightarrow> (JsonError 401 ''UNAUTHORIZED'' ''User not authenticated'', db)
      | Some userId \<Rightarrow>
          (case q of
             q_string s \<Rightarrow>
               if s = [] then
                 (JsonError 400 ''VALIDATION_ERROR'' ''Search query is required'', db)
               else
                 (let searchQuery = trim s in
                  if length searchQuery < 2 then
                    (JsonError 400 ''VALIDATION_ERROR''
                       ''Search query must be at least 2 characters long'', db)
                  else
                    (case searchTasks userId searchQuery db of
                       (Inr found, db') \<Rightarrow>
                         (Json 200 \<lparr>search_tasks = found, search_query = searchQuery,
                                    search_count = length found\<rparr>, db')
                     | (Inl e, db') \<Rightarrow>
                         (JsonError 500 ''INTERNAL_ERROR'' ''Failed to search tasks'', db')))
           | _ \<Rightarrow> (JsonError 400 ''VALIDATION_ERROR'' ''Search query is required'', db)))"

definition parse_TaskStatus :: "string \<Rightarrow> TaskStatus option" where
  "parse_TaskStatus s =
     (if s = ''PENDING'' then Some PENDING
      else if s = ''IN_PROGRESS'' then Some IN_PROGRESS
      else if s = ''COMPLETED'' then Some COMPLETED
      else None)"

text \<open>
  The status of the body is a string or not (\<open>None\<close>: absent, or a value that is no
  string and so none of the enum's values).
\<close>

definition controller_updateTaskStatus ::
  "int \<Rightarrow> string option \<Rightarrow> string \<Rightarrow> string option \<Rightarrow> Database
   \<Rightarrow> TaskWithRelations Response \<times> Database" where
  "controller_updateTaskStatus now user taskId body_status db =
     (case user of
        None \<Rightarrow> (JsonError 401 ''UNAUTHORIZED'' ''User not authenticated'', db)
      | Some userId \<Rightarrow>
          (case Option.bind body_status parse_TaskStatus of
             None \<Rightarrow> (JsonError 400 ''VALIDATION_ERROR'' ''Valid status is required'', db)
           | Some st \<Rightarrow>
               (case updateTaskStatus now taskId userId st db of
                  (Inr t, db') \<Rightarrow> (Json 200 t, db')
                | (Inl e, db') \<Rightarrow>
                    (case e of
                       Error m \<Rightarrow>
                         if m = ''Task not found or access denied''
                         then (JsonError 404 ''NOT_FOUND'' m, db')
                         else (JsonError 500 ''INTERNAL_ERROR''
                                 ''Failed to update task status'', db')
                     | _ \<Rightarrow> (JsonError 500 ''INTERNAL_ERROR''
                               ''Failed to update task status'', db')))))"

section \<open>Example data\<close>

text \<open>
  A small database for the concrete instances below: alice created \<open>t1\<close>, bob
  created \<open>t2\<close> and assigned it to alice, bob created \<open>t3\<close> and assigned it to
  carol, so alice takes no part in \<open>t3\<close>. The database \<open>many_db n\<close> holds \<open>n\<close>
  tasks of alice, created and updated at the times \<open>0\<close> to \<open>n - 1\<close>, with ids
  in unary.
\<close>

definition example_user :: "string \<Rightarrow> User" where
  "example_user n =
     \<lparr>id_user = n, user_email = n @ ''@example.com'', user_name = n,
      user_passwordHash = ''x'', user_createdAt = 0, user_updatedAt = 0\<rparr>"

definition example_task :: "string \<Rightarrow> string \<Rightarrow> string \<Rightarrow> string option \<Rightarrow> int \<Rightarrow> Task" where
  "example_task i ti c a u =
     \<lparr>id_task = i, title = ti, description = None, status = PENDING, priority = MEDIUM,
      dueDate = None, createdAt = u, updatedAt = u, creatorId = c, assigneeId = a\<rparr>"

definition example_db :: Database where
  "example_db =
     \<lparr>task_rows =
        [example_task ''t1'' ''Write report'' ''alice'' None 10,
         example_task ''t2'' ''Review Report'' ''bob'' (Some ''alice'') 20,
         example_task ''t3'' ''Secret report'' ''bob'' (Some ''carol'') 30],
      user_rows = map example_user [''alice'', ''bob'', ''carol''],
      calls = []\<rparr>"

definition no_filters :: TaskFilterData where
  "no_filters =
     \<lparr>flt_status = None, flt_priority = None, flt_assigneeId = None, flt_creatorId = None,
      flt_dueDateFrom = None, flt_dueDateTo = None, flt_search = None, flt_page = None,
      flt_limit = None, flt_sortBy = None, flt_sortOrder = None\<rparr>"

definition blank_patch :: TaskUpdateData where
  "blank_patch =
     \<lparr>upd_title = None, upd_description = None, upd_status = None, upd_priority = None,
      upd_dueDate = None, upd_assigneeId = None\<rparr>"

definition numbered_task :: "nat \<Rightarrow> Task" where
  "numbered_task n =
     example_task (replicate (Suc n) CHR ''i'') ''Quarterly report'' ''alice'' None (int n)"

definition many_db :: "nat \<Rightarrow> Database" where
  "many_db n =
     \<lparr>task_rows = map numbered_task [0..<n], user_rows = [example_user ''alice''], calls = []\<rparr>"

definition page_two_of_ten :: TaskFilterValue where
  "page_two_of_ten =
     \<lparr>v_status = None, v_priority = None, v_assigneeId = None, v_creatorId = None,
      v_dueDateFrom = None, v_dueDateTo = None, v_search = None, v_page = 2, v_limit = 10,
      v_sortBy = ''createdAt'', v_sortOrder = desc\<rparr>"

definition bobs_reports :: TaskFilterValue where
  "bobs_reports =
     \<lparr>v_status = None, v_priority = None, v_assigneeId = None, v_creatorId = Some ''bob'',
      v_dueDateFrom = None, v_dueDateTo = None, v_search = Some ''report'', v_page = 1,
      v_limit = 20, v_sortBy = ''createdAt'', v_sortOrder = desc\<rparr>"

section \<open>Facts about the store, the where clauses and the service\<close>

lemma set_insert_by: "set (insert_by le x xs) = insert x (set xs)"
  by (induction xs) auto

lemma set_sort_by: "set (sort_by le xs) = set xs"
  by (induction xs) (simp_all add: sort_by_def set_insert_by)

lemma length_insert_by: "length (insert_by le x xs) = Suc (length xs)"
  by (induction xs) auto

lemma length_sort_by: "length (sort_by le xs) = length xs"
  by (induction xs) (simp_all add: sort_by_def length_insert_by)

lemma set_order_rows: "set (order_rows ob rows) = set rows"
  by (simp add: order_rows_def set_sort_by split: option.splits)

lemma length_order_rows: "length (order_rows ob rows) = length rows"
  by (simp add: order_rows_def length_sort_by split: option.splits)

lemma matches_visible:
  "task_matches (set_OR (Some (visible_to u)) empty_where) t \<longleftrightarrow>
     creatorId t = u \<or> assigneeId t = Some u"
  by (simp add: visible_to_def empty_where_def opt_holds_def)

lemma where_OR_kept:
  "where_OR (set_status a w) = where_OR w"
  "where_OR (set_priority b w) = where_OR w"
  "where_OR (set_assigneeId c w) = where_OR w"
  "where_OR (set_creatorId d w) = where_OR w"
  "where_OR (set_dueDate e w) = where_OR w"
  "where_OR (set_id f w) = where_OR w"
  "where_OR (set_OR g w) = g"
  by (cases w; simp)+

lemma where_OR_visible:
  "where_OR w = Some (visible_to u) \<Longrightarrow> task_matches w t \<Longrightarrow>
     creatorId t = u \<or> assigneeId t = Some u"
  by (cases w) (auto simp add: visible_to_def empty_where_def opt_holds_def)

lemma where_AND_visible:
  "task_matches (set_OR None (set_AND (Some [set_OR (Some (visible_to u)) empty_where, x]) w)) t
     \<Longrightarrow> creatorId t = u \<or> assigneeId t = Some u"
  by (cases w) (auto simp add: visible_to_def empty_where_def opt_holds_def)

lemma build_where_visible:
  assumes "task_matches (build_where u v) t"
  shows "creatorId t = u \<or> assigneeId t = Some u"
proof -
  define w5 where "w5 =
    (let w0 = set_OR (Some (visible_to u)) empty_where;
          w1 = (case v_status v of Some s \<Rightarrow> set_status (Some s) w0 | None \<Rightarrow> w0);
          w2 = (case v_priority v of Some p \<Rightarrow> set_priority (Some p) w1 | None \<Rightarrow> w1);
          w3 = (case v_assigneeId v of
                  Some a \<Rightarrow> if a \<noteq> [] then set_assigneeId (Some a) w2 else w2
                | None \<Rightarrow> w2);
          w4 = (case v_creatorId v of
                  Some c \<Rightarrow> if c \<noteq> [] then set_creatorId (Some c) w3 else w3
                | None \<Rightarrow> w3)
      in (if v_dueDateFrom v \<noteq> None \<or> v_dueDateTo v \<noteq> None
                then set_dueDate (Some \<lparr>gte = v_dueDateFrom v, lte = v_dueDateTo v\<rparr>) w4
                else w4))"
  have keep: "where_OR w5 = Some (visible_to u)"
    unfolding w5_def Let_def by (simp add: where_OR_kept split: option.splits)
  have bw: "build_where u v = (case v_search v of
           Some q \<Rightarrow>
             if q \<noteq> [] then
               set_OR None
                 (set_AND (Some [set_OR (Some (visible_to u)) empty_where,
                                 set_OR (Some (text_contains q)) empty_where]) w5)
             else w5
         | None \<Rightarrow> w5)"
    unfolding build_where_def w5_def Let_def by simp
  show ?thesis
  proof (cases "v_search v")
    case None
    with assms bw have "task_matches w5 t" by simp
    with keep show ?thesis by (rule where_OR_visible)
  next
    case (Some q)
    show ?thesis
    proof (cases "q = []")
      case True
      with Some assms bw have "task_matches w5 t" by simp
      with keep show ?thesis by (rule where_OR_visible)
    next
      case False
      with Some assms bw show ?thesis by (auto dest: where_AND_visible)
    qed
  qed
qed

lemma include_relations_fields [simp]:
  "creatorId (include_relations us t) = creatorId t"
  "assigneeId (include_relations us t) = assigneeId t"
  "id_task (include_relations us t) = id_task t"
  "updatedAt (include_relations us t) = updatedAt t"
  "status (include_relations us t) = status t"
  by (simp_all add: include_relations_def)

lemma findMany_subset:
  "x \<in> set (fst (prisma_task_findMany w ob sk tk db)) \<Longrightarrow>
     \<exists>t \<in> set (task_rows db). task_matches w t \<and> x = include_relations (user_rows db) t"
  by (auto simp add: prisma_task_findMany_def set_order_rows
      dest!: in_set_takeD in_set_dropD)

lemma find_visible_None:
  assumes "\<forall>t \<in> set (task_rows db). id_task t = taskId \<longrightarrow> creatorId t \<noteq> userId \<and> assigneeId t \<noteq> Some userId"
  shows "find (task_matches (set_OR (Some (visible_to userId)) (set_id (Some taskId) empty_where))) (task_rows db) = None"
  using assms by (auto simp add: find_None_iff visible_to_def empty_where_def opt_holds_def)

lemma find_visible_Some:
  assumes "t \<in> set (task_rows db)" "id_task t = taskId" "creatorId t = userId \<or> assigneeId t = Some userId"
  shows "\<exists>t'. find (task_matches (set_OR (Some (visible_to userId)) (set_id (Some taskId) empty_where))) (task_rows db) = Some t'"
proof (cases "find (task_matches (set_OR (Some (visible_to userId)) (set_id (Some taskId) empty_where))) (task_rows db)")
  case None
  with assms show ?thesis
    by (auto simp add: find_None_iff visible_to_def empty_where_def opt_holds_def)
qed simp

lemma unique_id:
  "distinct (map id_task rows) \<Longrightarrow> t \<in> set rows \<Longrightarrow> r \<in> set rows \<Longrightarrow>
     id_task r = id_task t \<Longrightarrow> r = t"
  by (meson distinct_map inj_onD)

lemma record_call_fields [simp]:
  "task_rows (record_call c db) = task_rows db"
  "user_rows (record_call c db) = user_rows db"
  "calls (record_call c db) = calls db @ [c]"
  by (simp_all add: record_call_def)

lemma validate_update_keeps:
  assumes "taskUpdateSchema_validate patch = Inr v"
  shows "upd_assigneeId v = upd_assigneeId patch" "upd_assigneeId v \<noteq> Some (Some [])"
  using assms
  by (auto simp add: taskUpdateSchema_validate_def Let_def split: if_splits)

lemma updateTask_denied:
  assumes valid: "taskUpdateSchema_validate patch = Inr v"
    and hidden: "\<forall>t \<in> set (task_rows db). id_task t = taskId \<longrightarrow>
                   creatorId t \<noteq> actor \<and> assigneeId t \<noteq> Some actor"
  shows "updateTask now taskId actor patch db =
           (Inl (Error ''Task not found or access denied''), record_call task_findFirst db)"
  using find_visible_None[OF hidden] valid
  by (simp add: updateTask_def updateTask_try_def prisma_task_findFirst_def
      updateTask_catch_def not_found_or_denied_def)

lemma sorted_insert_by:
  assumes total: "\<And>a b. le a b \<or> le b a" and trans: "\<And>a b c. le a b \<Longrightarrow> le b c \<Longrightarrow> le a c"
  shows "sorted_wrt le xs \<Longrightarrow> sorted_wrt le (insert_by le x xs)"
proof (induction xs)
  case Nil
  then show ?case by simp
next
  case (Cons y ys)
  show ?case
  proof (cases "le x y")
    case True
    with Cons.prems trans show ?thesis by auto
  next
    case False
    with total have "le y x" by blast
    with Cons False show ?thesis by (auto simp add: set_insert_by)
  qed
qed

lemma sorted_sort_by:
  assumes total: "\<And>a b. le a b \<or> le b a" and trans: "\<And>a b c. le a b \<Longrightarrow> le b c \<Longrightarrow> le a c"
  shows "sorted_wrt le (sort_by le xs)"
proof (induction xs)
  case Nil
  then show ?case by (simp add: sort_by_def)
next
  case (Cons x xs)
  then have "sorted_wrt le (insert_by le x (sort_by le xs))"
    by (intro sorted_insert_by total) (auto intro: trans)
  then show ?case by (simp add: sort_by_def)
qed

lemma sorted_updatedAt_desc:
  "sorted_wrt (\<lambda>x y. updatedAt y \<le> updatedAt x)
     (order_rows (Some (ByUpdatedAt, desc)) (rows :: 'a Task_scheme list))"
proof -
  have "order_le (ByUpdatedAt, desc) = (\<lambda>(x :: 'a Task_scheme) y. updatedAt y \<le> updatedAt x)"
    by (intro ext) simp
  moreover have "sorted_wrt (\<lambda>(x :: 'a Task_scheme) y. updatedAt y \<le> updatedAt x)
      (sort_by (\<lambda>x y. updatedAt y \<le> updatedAt x) rows)"
    by (rule sorted_sort_by) auto
  ultimately show ?thesis by (simp add: order_rows_def)
qed

lemma sorted_wrt_take_drop:
  "sorted_wrt P xs \<Longrightarrow> sorted_wrt P (take n xs)"
  by (metis append_take_drop_id sorted_wrt_append)

lemma search_where_matches:
  "task_matches (search_where actor q) t \<longleftrightarrow>
     (creatorId t = actor \<or> assigneeId t = Some actor) \<and>
     (contains_insensitive (title t) q \<or>
      (case description t of None \<Rightarrow> False | Some d \<Rightarrow> contains_insensitive d q))"
  by (auto simp add: search_where_def visible_to_def text_contains_def empty_where_def
      opt_holds_def split: option.splits)

lemma searchTasks_runs:
  assumes "trim q \<noteq> []"
  shows "searchTasks actor q db =
     (Inr (map (include_relations (user_rows db))
        (take 50 (order_rows (Some (ByUpdatedAt, desc))
           (filter (task_matches (search_where actor q)) (task_rows db))))),
      record_call task_findMany db)"
  using assms
  by (simp add: searchTasks_def searchTasks_try_def prisma_task_findMany_def)

lemma find_by_id_unique:
  assumes pk: "distinct (map id_task rows)" and stored: "t \<in> set rows"
  shows "find (\<lambda>r. id_task r = id_task t) rows = Some t"
proof (cases "find (\<lambda>r. id_task r = id_task t) rows")
  case None
  with stored show ?thesis by (auto simp add: find_None_iff)
next
  case (Some r)
  then have "r \<in> set rows" "id_task r = id_task t"
    by (auto simp add: find_Some_iff)
  with unique_id[OF pk stored] Some show ?thesis by simp
qed

lemma apply_update_fields [simp]:
  "id_task (apply_update now d t) = id_task t"
  "creatorId (apply_update now d t) = creatorId t"
  "assigneeId (apply_update now d t) =
     (case data_assignee d of None \<Rightarrow> assigneeId t
      | Some disconnect \<Rightarrow> None | Some (connect u) \<Rightarrow> Some u)"
  by (simp_all add: apply_update_def)

lemma updateTask_without_new_assignee:
  assumes pk: "distinct (map id_task (task_rows db))"
    and stored: "t \<in> set (task_rows db)"
    and visible: "creatorId t = actor \<or> assigneeId t = Some actor"
    and valid: "taskUpdateSchema_validate patch = Inr v"
    and shape: "upd_assigneeId patch = None \<or> upd_assigneeId patch = Some None"
  shows "updateTask now (id_task t) actor patch db =
     (Inr (include_relations (user_rows db) (apply_update now (build_updatePayload v) t)),
      (record_call task_update (record_call task_findFirst db))
        \<lparr>task_rows := map (\<lambda>r. if id_task r = id_task t
                                then apply_update now (build_updatePayload v) r else r)
                         (task_rows db)\<rparr>)"
proof -
  from find_visible_Some[OF stored refl visible] obtain t' where
    f: "find (task_matches (set_OR (Some (visible_to actor)) (set_id (Some (id_task t)) empty_where)))
          (task_rows db) = Some t'" by blast
  from shape validate_update_keeps(1)[OF valid]
  have a: "upd_assigneeId v = None \<or> upd_assigneeId v = Some None" by simp
  then have va: "verify_assignee (upd_assigneeId v) d = (None, d)" for d
    by (auto simp add: verify_assignee_def)
  from a have cf: "\<not> connect_fails (build_updatePayload v) d" for d
    by (auto simp add: connect_fails_def build_updatePayload_def)
  show ?thesis
    by (simp add: updateTask_def valid updateTask_try_def prisma_task_findFirst_def f va
        prisma_task_update_def Let_def find_by_id_unique[OF pk stored] cf)
qed

lemma updated_row_present:
  assumes stored: "t \<in> set rows"
  shows "\<exists>x \<in> set (map (\<lambda>r. if id_task r = id_task t then apply_update now d r else r) rows).
           id_task x = id_task t"
proof -
  let ?f = "\<lambda>r. if id_task r = id_task t then apply_update now d r else r"
  from stored have "?f t \<in> set (map ?f rows)"
    by (simp only: set_map) (rule imageI)
  moreover have "id_task (?f t) = id_task t" by simp
  ultimately show ?thesis by (rule rev_bexI)
qed

lemma valid_filter_bounds:
  assumes "taskFilterSchema_validate f = Inr v"
  shows "1 \<le> v_page v" "1 \<le> v_limit v" "v_limit v \<le> 100"
  using assms
  by (auto simp add: taskFilterSchema_validate_def Let_def split: if_splits)

lemma ceiling_pages:
  assumes "0 < (l :: int)"
  shows "n \<le> \<lceil>real_of_int n / real_of_int l\<rceil> * l"
    and "(\<lceil>real_of_int n / real_of_int l\<rceil> - 1) * l < n"
proof -
  let ?c = "\<lceil>real_of_int n / real_of_int l\<rceil>"
  from assms have l: "0 < real_of_int l" by simp
  have "real_of_int n / real_of_int l \<le> real_of_int ?c" by (rule le_of_int_ceiling)
  then have "real_of_int n \<le> real_of_int ?c * real_of_int l"
    by (rule iffD1[OF pos_divide_le_eq[OF l]])
  then have "real_of_int n \<le> real_of_int (?c * l)" by simp
  then show "n \<le> ?c * l" by (simp only: of_int_le_iff)
  have "real_of_int ?c - 1 < real_of_int n / real_of_int l" by linarith
  then have "(real_of_int ?c - 1) * real_of_int l < real_of_int n"
    by (rule iffD1[OF pos_less_divide_eq[OF l]])
  then have "real_of_int ((?c - 1) * l) < real_of_int n" by simp
  then show "(?c - 1) * l < n" by (simp only: of_int_less_iff)
qed

lemma getUserTasks_result:
  assumes valid: "taskFilterSchema_validate filters = Inr v"
  shows "\<exists>r db'. getUserTasks actor filters db = (Inr r, db') \<and>
           tasks r = map (include_relations (user_rows db))
             (take (nat (v_limit v)) (drop (nat ((v_page v - 1) * v_limit v))
               (order_rows (build_orderBy v)
                 (filter (task_matches (build_where actor v)) (task_rows db))))) \<and>
           total r = int (length (filter (task_matches (build_where actor v)) (task_rows db))) \<and>
           page r = v_page v \<and> limit r = v_limit v \<and>
           totalPages r = \<lceil>real_of_int (total r) / real_of_int (v_limit v)\<rceil>"
proof -
  let ?m = "filter (task_matches (build_where actor v)) (task_rows db)"
  let ?r = "\<lparr>tasks = map (include_relations (user_rows db))
             (take (nat (v_limit v)) (drop (nat ((v_page v - 1) * v_limit v))
               (order_rows (build_orderBy v) ?m))),
            total = int (length ?m), page = v_page v, limit = v_limit v,
            totalPages = \<lceil>real_of_int (int (length ?m)) / real_of_int (v_limit v)\<rceil>\<rparr>"
  have run: "getUserTasks actor filters db =
      (Inr ?r, record_call task_count (record_call task_findMany db))"
    by (simp add: getUserTasks_def valid getUserTasks_try_def Let_def
        prisma_task_findMany_def prisma_task_count_def)
  show ?thesis
    by (intro exI[of _ ?r] exI[of _ "record_call task_count (record_call task_findMany db)"]
        conjI) (simp_all add: run)
qed

section \<open>The claims\<close>

text \<open>
  C1. For every actor and every combination of filters, the list operation returns
  only tasks that the actor created or is assigned to, each of them a row of the
  table; a search filter or a creator filter naming another user does not change
  that.
\<close>

theorem list_only_visible:
  assumes "getUserTasks A filters db = (Inr r, db')"
  shows "\<forall>x \<in> set (tasks r).
           (creatorId x = A \<or> assigneeId x = Some A) \<and>
           (\<exists>t \<in> set (task_rows db). x = include_relations (user_rows db) t)"
proof
  fix x assume x: "x \<in> set (tasks r)"
  from assms obtain v where tr: "getUserTasks_try A v db = (Inr r, db')"
    by (auto simp add: getUserTasks_def split: sum.splits prod.splits)
  then have "tasks r = fst (prisma_task_findMany (build_where A v) (build_orderBy v)
      (Some (nat ((v_page v - 1) * v_limit v))) (nat (v_limit v)) db)"
    by (auto simp add: getUserTasks_try_def Let_def split: prod.splits)
  with x obtain t where t: "t \<in> set (task_rows db)" "task_matches (build_where A v) t"
      "x = include_relations (user_rows db) t"
    by (auto dest: findMany_subset)
  from build_where_visible[OF t(2)] t(1,3)
  show "(creatorId x = A \<or> assigneeId x = Some A) \<and>
           (\<exists>t \<in> set (task_rows db). x = include_relations (user_rows db) t)"
    by auto
qed

theorem list_only_visible_witness:
  "\<exists>r db'. getUserTasks ''alice''
       (no_filters\<lparr>flt_creatorId := Some ''bob'', flt_search := Some ''report''\<rparr>) example_db
       = (Inr r, db') \<and>
     map id_task (tasks r) = [''t2''] \<and>
     (\<forall>x \<in> set (tasks r). creatorId x = ''alice'' \<or> assigneeId x = Some ''alice'')"
proof -
  let ?f = "no_filters\<lparr>flt_creatorId := Some ''bob'', flt_search := Some ''report''\<rparr>"
  have valid: "taskFilterSchema_validate ?f = Inr bobs_reports" by code_simp
  have items: "map id_task (map (include_relations (user_rows example_db))
             (take (nat (v_limit bobs_reports))
               (drop (nat ((v_page bobs_reports - 1) * v_limit bobs_reports))
                 (order_rows (build_orderBy bobs_reports)
                   (filter (task_matches (build_where ''alice'' bobs_reports))
                      (task_rows example_db)))))) = [''t2'']"
    by code_simp
  from getUserTasks_result[OF valid, of "''alice''" example_db]
  obtain r db' where run: "getUserTasks ''alice'' ?f example_db = (Inr r, db')"
    and t: "tasks r = map (include_relations (user_rows example_db))
             (take (nat (v_limit bobs_reports))
               (drop (nat ((v_page bobs_reports - 1) * v_limit bobs_reports))
                 (order_rows (build_orderBy bobs_reports)
                   (filter (task_matches (build_where ''alice'' bobs_reports))
                      (task_rows example_db)))))"
    by (elim exE conjE)
  from items t have ids: "map id_task (tasks r) = [''t2'']" by (simp only:)
  from list_only_visible[OF run]
  have vis: "\<forall>x \<in> set (tasks r). creatorId x = ''alice'' \<or> assigneeId x = Some ''alice''"
    by simp
  from run ids vis show ?thesis
    by (intro exI[of _ r] exI[of _ db'] conjI)
qed

text \<open>
  C2. When no task with the given id is visible to the actor, the status update
  should fail with the error ``Task not found or access denied'', passed on
  unchanged. The code translates it instead: the service throws
  ``An internal error occurred'', and the controller, which answers 404 only to
  the untranslated message, answers 500.
\<close>

theorem updateTaskStatus_denial_rewrapped:
  assumes "\<forall>t \<in> set (task_rows db). id_task t = taskId \<longrightarrow>
             creatorId t \<noteq> userId \<and> assigneeId t \<noteq> Some userId"
  shows "updateTaskStatus now taskId userId st db =
           (Inl (Error ''An internal error occurred''), record_call task_findFirst db) \<and>
         fst (updateTaskStatus now taskId userId st db) \<noteq>
           Inl (Error ''Task not found or access denied'') \<and>
         (parse_TaskStatus body = Some st \<longrightarrow>
            controller_updateTaskStatus now (Some userId) taskId (Some body) db =
              (JsonError 500 ''INTERNAL_ERROR'' ''Failed to update task status'',
               record_call task_findFirst db))"
proof -
  have a: "updateTaskStatus now taskId userId st db =
           (Inl (Error ''An internal error occurred''), record_call task_findFirst db)"
    using find_visible_None[OF assms]
    by (simp add: updateTaskStatus_def updateTaskStatus_try_def prisma_task_findFirst_def
        rethrow_translated_def not_found_or_denied_def)
  then show ?thesis
    by (simp add: controller_updateTaskStatus_def)
qed

theorem updateTaskStatus_denial_rewrapped_witness:
  "updateTaskStatus 99 ''t3'' ''alice'' COMPLETED example_db =
     (Inl (Error ''An internal error occurred''), record_call task_findFirst example_db) \<and>
   controller_updateTaskStatus 99 (Some ''alice'') ''t3'' (Some ''COMPLETED'') example_db =
     (JsonError 500 ''INTERNAL_ERROR'' ''Failed to update task status'',
      record_call task_findFirst example_db)"
proof -
  have h: "\<forall>t \<in> set (task_rows example_db).
      id_task t = ''t3'' \<longrightarrow> creatorId t \<noteq> ''alice'' \<and> assigneeId t \<noteq> Some ''alice''"
    by code_simp
  have p: "parse_TaskStatus ''COMPLETED'' = Some COMPLETED" by code_simp
  from updateTaskStatus_denial_rewrapped[OF h, of 99 COMPLETED "''COMPLETED''"] p
  show ?thesis by simp
qed

text \<open>
  C3. For every actor and every patch that the schema accepts, an update of an id
  that no stored task has and an update of a stored task that the actor neither
  created nor is assigned to have the same outcome: the same error ``Task not
  found or access denied'', the same store and the same single read.
\<close>

theorem update_no_existence_leak:
  assumes valid: "taskUpdateSchema_validate patch = Inr v"
    and absent: "\<forall>r \<in> set (task_rows db). id_task r \<noteq> missingId"
    and pk: "distinct (map id_task (task_rows db))"
    and present: "t \<in> set (task_rows db)"
    and hidden: "creatorId t \<noteq> actor" "assigneeId t \<noteq> Some actor"
  shows "updateTask now missingId actor patch db =
           (Inl (Error ''Task not found or access denied''), record_call task_findFirst db) \<and>
         updateTask now (id_task t) actor patch db = updateTask now missingId actor patch db"
proof -
  from absent have h1: "\<forall>r \<in> set (task_rows db). id_task r = missingId \<longrightarrow>
                   creatorId r \<noteq> actor \<and> assigneeId r \<noteq> Some actor" by auto
  have h2: "\<forall>r \<in> set (task_rows db). id_task r = id_task t \<longrightarrow>
                   creatorId r \<noteq> actor \<and> assigneeId r \<noteq> Some actor"
    using unique_id[OF pk present] hidden by auto
  show ?thesis
    by (simp add: updateTask_denied[OF valid h1] updateTask_denied[OF valid h2])
qed

theorem update_no_existence_leak_witness:
  "updateTask 99 ''t9'' ''alice'' (blank_patch\<lparr>upd_title := Some ''New title''\<rparr>) example_db =
     (Inl (Error ''Task not found or access denied''), record_call task_findFirst example_db) \<and>
   updateTask 99 ''t3'' ''alice'' (blank_patch\<lparr>upd_title := Some ''New title''\<rparr>) example_db =
     updateTask 99 ''t9'' ''alice'' (blank_patch\<lparr>upd_title := Some ''New title''\<rparr>) example_db"
proof -
  let ?p = "blank_patch\<lparr>upd_title := Some ''New title''\<rparr>"
  let ?t = "example_task ''t3'' ''Secret report'' ''bob'' (Some ''carol'') 30"
  have valid: "taskUpdateSchema_validate ?p = Inr ?p" by code_simp
  have absent: "\<forall>t \<in> set (task_rows example_db). id_task t \<noteq> ''t9''" by code_simp
  have pk: "distinct (map id_task (task_rows example_db))" by code_simp
  have present: "?t \<in> set (task_rows example_db)" by code_simp
  have hidden: "creatorId ?t \<noteq> ''alice''" "assigneeId ?t \<noteq> Some ''alice''" by code_simp+
  have i: "id_task ?t = ''t3''" by (simp add: example_task_def)
  from update_no_existence_leak[OF valid absent pk present hidden, of 99]
  show ?thesis by (simp add: i)
qed

text \<open>
  C4. For a stored task whose assignee is not its creator, a delete by the assignee
  fails with ``Task not found or access denied'' and the task stays stored; a
  delete by the creator succeeds and removes exactly that task.
\<close>

theorem delete_authorization_asymmetry:
  assumes pk: "distinct (map id_task (task_rows db))"
    and stored: "t \<in> set (task_rows db)"
    and other: "creatorId t \<noteq> a" and assigned: "assigneeId t = Some a"
  shows "deleteTask (id_task t) a db =
           (Inl (Error ''Task not found or access denied''), record_call task_findFirst db) \<and>
         t \<in> set (task_rows (snd (deleteTask (id_task t) a db))) \<and>
         fst (deleteTask (id_task t) (creatorId t) db) = Inr () \<and>
         set (task_rows (snd (deleteTask (id_task t) (creatorId t) db))) =
           set (task_rows db) - {t}"
proof -
  have none: "find (task_matches (set_creatorId (Some a) (set_id (Some (id_task t)) empty_where)))
                (task_rows db) = None"
    using unique_id[OF pk stored] other
    by (auto simp add: find_None_iff empty_where_def opt_holds_def)
  have denied: "deleteTask (id_task t) a db =
           (Inl (Error ''Task not found or access denied''), record_call task_findFirst db)"
    by (simp add: deleteTask_def deleteTask_try_def prisma_task_findFirst_def none
        not_found_or_denied_def deleteTask_catch_def)
  obtain t1 where some: "find (task_matches (set_creatorId (Some (creatorId t))
        (set_id (Some (id_task t)) empty_where))) (task_rows db) = Some t1"
    using stored
    by (cases "find (task_matches (set_creatorId (Some (creatorId t))
        (set_id (Some (id_task t)) empty_where))) (task_rows db)")
      (auto simp add: find_None_iff empty_where_def opt_holds_def)
  obtain t2 where byid: "find (\<lambda>r. id_task r = id_task t) (task_rows db) = Some t2"
    using stored by (cases "find (\<lambda>r. id_task r = id_task t) (task_rows db)")
      (auto simp add: find_None_iff)
  have ok: "deleteTask (id_task t) (creatorId t) db =
      (Inr (), (record_call task_delete (record_call task_findFirst db))
         \<lparr>task_rows := filter (\<lambda>r. id_task r \<noteq> id_task t) (task_rows db)\<rparr>)"
    by (simp add: deleteTask_def deleteTask_try_def prisma_task_findFirst_def some
        prisma_task_delete_def byid Let_def)
  have "set (filter (\<lambda>r. id_task r \<noteq> id_task t) (task_rows db)) = set (task_rows db) - {t}"
    using unique_id[OF pk stored] by auto
  with denied ok stored show ?thesis by simp
qed

theorem delete_authorization_asymmetry_witness:
  "deleteTask ''t2'' ''alice'' example_db =
     (Inl (Error ''Task not found or access denied''), record_call task_findFirst example_db) \<and>
   fst (deleteTask ''t2'' ''bob'' example_db) = Inr () \<and>
   map id_task (task_rows (snd (deleteTask ''t2'' ''bob'' example_db))) = [''t1'', ''t3'']"
proof -
  let ?t = "example_task ''t2'' ''Review Report'' ''bob'' (Some ''alice'') 20"
  have pk: "distinct (map id_task (task_rows example_db))" by code_simp
  have stored: "?t \<in> set (task_rows example_db)" by code_simp
  have other: "creatorId ?t \<noteq> ''alice''" by code_simp
  have assigned: "assigneeId ?t = Some ''alice''" by code_simp
  have i: "id_task ?t = ''t2''" and c: "creatorId ?t = ''bob''" by (simp_all add: example_task_def)
  have rows: "map id_task (task_rows (snd (deleteTask ''t2'' ''bob'' example_db))) = [''t1'', ''t3'']"
    by code_simp
  from delete_authorization_asymmetry[OF pk stored other assigned] rows
  show ?thesis by (simp add: i c)
qed

text \<open>
  C5. For every stored task that the actor created or is assigned to, an accepted
  patch whose \<open>assigneeId\<close> is \<open>null\<close> (\<open>Some None\<close>) clears the assignment, in the
  result and in the store, and an accepted patch without the field (\<open>None\<close>) leaves
  the assignment as it was. The two shapes are different values of the patch.
\<close>

theorem update_assignee_null_versus_absent:
  assumes pk: "distinct (map id_task (task_rows db))"
    and stored: "t \<in> set (task_rows db)"
    and visible: "creatorId t = actor \<or> assigneeId t = Some actor"
    and valid: "taskUpdateSchema_validate patch = Inr v"
  shows "(upd_assigneeId patch = Some None \<longrightarrow>
           (\<exists>r db'. updateTask now (id_task t) actor patch db = (Inr r, db') \<and>
              assigneeId r = None \<and>
              (\<forall>x \<in> set (task_rows db'). id_task x = id_task t \<longrightarrow> assigneeId x = None) \<and>
              (\<exists>x \<in> set (task_rows db'). id_task x = id_task t))) \<and>
         (upd_assigneeId patch = None \<longrightarrow>
           (\<exists>r db'. updateTask now (id_task t) actor patch db = (Inr r, db') \<and>
              assigneeId r = assigneeId t \<and>
              (\<forall>x \<in> set (task_rows db'). id_task x = id_task t \<longrightarrow>
                 assigneeId x = assigneeId t) \<and>
              (\<exists>x \<in> set (task_rows db'). id_task x = id_task t)))"
proof -
  let ?d = "build_updatePayload v"
  let ?r = "include_relations (user_rows db) (apply_update now ?d t)"
  let ?db = "(record_call task_update (record_call task_findFirst db))
        \<lparr>task_rows := map (\<lambda>r. if id_task r = id_task t then apply_update now ?d r else r)
                         (task_rows db)\<rparr>"
  have rows: "task_rows ?db =
      map (\<lambda>r. if id_task r = id_task t then apply_update now ?d r else r) (task_rows db)"
    by simp
  have present: "\<exists>x \<in> set (task_rows ?db). id_task x = id_task t"
    unfolding rows by (rule updated_row_present[OF stored])
  have u: "\<forall>r \<in> set (task_rows db). id_task r = id_task t \<longrightarrow> r = t"
    using unique_id[OF pk stored] by auto
  have run: "upd_assigneeId patch = None \<or> upd_assigneeId patch = Some None \<Longrightarrow>
      updateTask now (id_task t) actor patch db = (Inr ?r, ?db)"
    by (rule updateTask_without_new_assignee[OF pk stored visible valid])
  show ?thesis
  proof (intro conjI impI)
    assume n: "upd_assigneeId patch = Some None"
    with validate_update_keeps(1)[OF valid]
    have d: "data_assignee ?d = Some disconnect"
      by (simp add: build_updatePayload_def)
    have a: "assigneeId ?r = None" by (simp add: d)
    have b: "\<forall>x \<in> set (task_rows ?db). id_task x = id_task t \<longrightarrow> assigneeId x = None"
      unfolding rows using u by (auto simp add: d)
    from n have "updateTask now (id_task t) actor patch db = (Inr ?r, ?db)"
      by (intro run) simp
    with a b present
    show "\<exists>r db'. updateTask now (id_task t) actor patch db = (Inr r, db') \<and>
              assigneeId r = None \<and>
              (\<forall>x \<in> set (task_rows db'). id_task x = id_task t \<longrightarrow> assigneeId x = None) \<and>
              (\<exists>x \<in> set (task_rows db'). id_task x = id_task t)"
      by (intro exI[of _ ?r] exI[of _ ?db] conjI)
  next
    assume n: "upd_assigneeId patch = None"
    with validate_update_keeps(1)[OF valid]
    have d: "data_assignee ?d = None"
      by (simp add: build_updatePayload_def)
    have a: "assigneeId ?r = assigneeId t" by (simp add: d)
    have b: "\<forall>x \<in> set (task_rows ?db). id_task x = id_task t \<longrightarrow>
               assigneeId x = assigneeId t"
      unfolding rows using u by (auto simp add: d)
    from n have "updateTask now (id_task t) actor patch db = (Inr ?r, ?db)"
      by (intro run) simp
    with a b present
    show "\<exists>r db'. updateTask now (id_task t) actor patch db = (Inr r, db') \<and>
              assigneeId r = assigneeId t \<and>
              (\<forall>x \<in> set (task_rows db'). id_task x = id_task t \<longrightarrow>
                 assigneeId x = assigneeId t) \<and>
              (\<exists>x \<in> set (task_rows db'). id_task x = id_task t)"
      by (intro exI[of _ ?r] exI[of _ ?db] conjI)
  qed
qed

theorem update_assignee_null_versus_absent_witness:
  "(\<exists>r db'. updateTask 99 ''t2'' ''bob'' (blank_patch\<lparr>upd_assigneeId := Some None\<rparr>) example_db
        = (Inr r, db') \<and> assigneeId r = None \<and>
        map assigneeId (task_rows db') = [None, None, Some ''carol'']) \<and>
   (\<exists>r db'. updateTask 99 ''t2'' ''bob'' blank_patch example_db
        = (Inr r, db') \<and> assigneeId r = Some ''alice'' \<and>
        map assigneeId (task_rows db') = [None, Some ''alice'', Some ''carol''])"
proof -
  let ?t = "example_task ''t2'' ''Review Report'' ''bob'' (Some ''alice'') 20"
  let ?p = "blank_patch\<lparr>upd_assigneeId := Some None\<rparr>"
  have pk: "distinct (map id_task (task_rows example_db))" by code_simp
  have stored: "?t \<in> set (task_rows example_db)" by code_simp
  have visible: "creatorId ?t = ''bob'' \<or> assigneeId ?t = Some ''bob''" by code_simp
  have v1: "taskUpdateSchema_validate ?p = Inr ?p" by code_simp
  have v2: "taskUpdateSchema_validate blank_patch = Inr blank_patch" by code_simp
  have s1: "upd_assigneeId ?p = Some None" and s2: "upd_assigneeId blank_patch = None"
    by (simp_all add: blank_patch_def)
  have i: "id_task ?t = ''t2''" and a: "assigneeId ?t = Some ''alice''"
    by (simp_all add: example_task_def)
  have r1: "map assigneeId (task_rows (snd (updateTask 99 ''t2'' ''bob'' ?p example_db))) =
      [None, None, Some ''carol'']" by code_simp
  have r2: "map assigneeId (task_rows (snd (updateTask 99 ''t2'' ''bob'' blank_patch example_db))) =
      [None, Some ''alice'', Some ''carol'']" by code_simp
  from update_assignee_null_versus_absent[OF pk stored visible v1, of 99,
      THEN conjunct1, rule_format, OF s1]
  obtain r db' where e1: "updateTask 99 (id_task ?t) ''bob'' ?p example_db = (Inr r, db')"
    and n1: "assigneeId r = None"
    by (elim exE conjE)
  from e1 r1 have m1: "map assigneeId (task_rows db') = [None, None, Some ''carol'']"
    by (simp add: i)
  from e1 n1 m1
  have one: "\<exists>r db'. updateTask 99 ''t2'' ''bob'' ?p example_db
        = (Inr r, db') \<and> assigneeId r = None \<and>
        map assigneeId (task_rows db') = [None, None, Some ''carol'']"
    unfolding i by (intro exI[of _ r] exI[of _ db'] conjI)
  from update_assignee_null_versus_absent[OF pk stored visible v2, of 99,
      THEN conjunct2, rule_format, OF s2]
  obtain q db2 where e2: "updateTask 99 (id_task ?t) ''bob'' blank_patch example_db = (Inr q, db2)"
    and n2: "assigneeId q = assigneeId ?t"
    by (elim exE conjE)
  from e2 r2 have m2: "map assigneeId (task_rows db2) = [None, Some ''alice'', Some ''carol'']"
    by (simp add: i)
  from n2 a have n2': "assigneeId q = Some ''alice''" by simp
  from e2 n2' m2
  have two: "\<exists>r db'. updateTask 99 ''t2'' ''bob'' blank_patch example_db
        = (Inr r, db') \<and> assigneeId r = Some ''alice'' \<and>
        map assigneeId (task_rows db') = [None, Some ''alice'', Some ''carol'']"
    unfolding i by (intro exI[of _ q] exI[of _ db2] conjI)
  from one two show ?thesis by (rule conjI)
qed

text \<open>
  C6. For every accepted page and limit, the list operation skips
  \<open>(page - 1) * limit\<close> rows of the ordered matches and returns at most \<open>limit\<close> of
  the rest; \<open>totalPages\<close> is the ceiling of \<open>total / limit\<close>, the one number with
  \<open>(totalPages - 1) * limit < total \<le> totalPages * limit\<close>. No matches give no
  items and no pages, not an error. (25 matches with limit 10 give 3 pages, and
  page 2 starts after 10 rows: the instance below.)
\<close>

theorem list_pagination:
  assumes valid: "taskFilterSchema_validate filters = Inr v"
  shows "\<exists>r db'. getUserTasks actor filters db = (Inr r, db') \<and>
           1 \<le> v_page v \<and> 1 \<le> v_limit v \<and> v_limit v \<le> 100 \<and>
           page r = v_page v \<and> limit r = v_limit v \<and>
           tasks r = map (include_relations (user_rows db))
             (take (nat (v_limit v)) (drop (nat ((v_page v - 1) * v_limit v))
               (order_rows (build_orderBy v)
                 (filter (task_matches (build_where actor v)) (task_rows db))))) \<and>
           int (length (tasks r)) \<le> v_limit v \<and>
           total r = int (length (filter (task_matches (build_where actor v)) (task_rows db))) \<and>
           totalPages r = \<lceil>real_of_int (total r) / real_of_int (v_limit v)\<rceil> \<and>
           (totalPages r - 1) * v_limit v < total r \<and> total r \<le> totalPages r * v_limit v \<and>
           (total r = 0 \<longrightarrow> tasks r = [] \<and> totalPages r = 0)"
proof -
  note b = valid_filter_bounds[OF valid]
  let ?m = "filter (task_matches (build_where actor v)) (task_rows db)"
  from getUserTasks_result[OF valid, of actor db]
  obtain r db' where run: "getUserTasks actor filters db = (Inr r, db')"
    and t: "tasks r = map (include_relations (user_rows db))
             (take (nat (v_limit v)) (drop (nat ((v_page v - 1) * v_limit v))
               (order_rows (build_orderBy v) ?m)))"
    and n: "total r = int (length ?m)"
    and p: "page r = v_page v" and l: "limit r = v_limit v"
    and c: "totalPages r = \<lceil>real_of_int (total r) / real_of_int (v_limit v)\<rceil>"
    by (elim exE conjE)
  from b(2) have pos: "0 < v_limit v" by simp
  from t b(2) have len: "int (length (tasks r)) \<le> v_limit v" by simp
  from ceiling_pages[OF pos, of "total r"] c
  have lo: "(totalPages r - 1) * v_limit v < total r"
    and hi: "total r \<le> totalPages r * v_limit v" by simp_all
  have empty: "total r = 0 \<longrightarrow> tasks r = [] \<and> totalPages r = 0"
  proof
    assume z: "total r = 0"
    with n have "?m = []" by simp
    with t have "tasks r = []"
      by (simp add: order_rows_def sort_by_def split: option.splits)
    moreover from c z have "totalPages r = 0" by simp
    ultimately show "tasks r = [] \<and> totalPages r = 0" by (rule conjI)
  qed
  from run b p l t len n c lo hi empty show ?thesis
    by (intro exI[of _ r] exI[of _ db'] conjI)
qed

theorem list_pagination_witness:
  "(\<exists>r db'. getUserTasks ''alice'' (no_filters\<lparr>flt_page := Some 2, flt_limit := Some 10\<rparr>)
       (many_db 25) = (Inr r, db') \<and>
      total r = 25 \<and> totalPages r = 3 \<and> page r = 2 \<and> limit r = 10 \<and>
      map createdAt (tasks r) = [14, 13, 12, 11, 10, 9, 8, 7, 6, 5]) \<and>
   (\<exists>r db'. getUserTasks ''alice'' (no_filters\<lparr>flt_page := Some 2, flt_limit := Some 10\<rparr>)
       (many_db 0) = (Inr r, db') \<and> total r = 0 \<and> tasks r = [] \<and> totalPages r = 0)"
proof -
  let ?f = "no_filters\<lparr>flt_page := Some 2, flt_limit := Some 10\<rparr>"
  let ?v = page_two_of_ten
  have valid: "taskFilterSchema_validate ?f = Inr ?v" by code_simp
  have n25: "int (length (filter (task_matches (build_where ''alice'' ?v))
      (task_rows (many_db 25)))) = 25"
    by code_simp
  have n0: "int (length (filter (task_matches (build_where ''alice'' ?v))
      (task_rows (many_db 0)))) = 0"
    by code_simp
  have items: "map createdAt (map (include_relations (user_rows (many_db 25)))
             (take (nat (v_limit ?v)) (drop (nat ((v_page ?v - 1) * v_limit ?v))
               (order_rows (build_orderBy ?v)
                 (filter (task_matches (build_where ''alice'' ?v)) (task_rows (many_db 25)))))))
       = [14, 13, 12, 11, 10, 9, 8, 7, 6, 5]"
    by code_simp
  have pl: "v_page ?v = 2" "v_limit ?v = 10" by (simp_all add: page_two_of_ten_def)
  from list_pagination[OF valid, of "''alice''" "many_db 25"]
  obtain r db' where run: "getUserTasks ''alice'' ?f (many_db 25) = (Inr r, db')"
    and p: "page r = v_page ?v" and l: "limit r = v_limit ?v"
    and t: "tasks r = map (include_relations (user_rows (many_db 25)))
             (take (nat (v_limit ?v)) (drop (nat ((v_page ?v - 1) * v_limit ?v))
               (order_rows (build_orderBy ?v)
                 (filter (task_matches (build_where ''alice'' ?v)) (task_rows (many_db 25))))))"
    and n: "total r = int (length (filter (task_matches (build_where ''alice'' ?v))
               (task_rows (many_db 25))))"
    and c: "totalPages r = \<lceil>real_of_int (total r) / real_of_int (v_limit ?v)\<rceil>"
    by (elim exE conjE)
  from n n25 have n': "total r = 25" by (simp only:)
  from c n' pl have c': "totalPages r = 3" by simp
  from t items have t': "map createdAt (tasks r) = [14, 13, 12, 11, 10, 9, 8, 7, 6, 5]"
    by (simp only:)
  from p l pl have p': "page r = 2" and l': "limit r = 10" by simp_all
  from run n' c' p' l' t'
  have one: "\<exists>r db'. getUserTasks ''alice'' ?f (many_db 25) = (Inr r, db') \<and>
      total r = 25 \<and> totalPages r = 3 \<and> page r = 2 \<and> limit r = 10 \<and>
      map createdAt (tasks r) = [14, 13, 12, 11, 10, 9, 8, 7, 6, 5]"
    by (intro exI[of _ r] exI[of _ db'] conjI)
  from list_pagination[OF valid, of "''alice''" "many_db 0"]
  obtain q db2 where run0: "getUserTasks ''alice'' ?f (many_db 0) = (Inr q, db2)"
    and n2: "total q = int (length (filter (task_matches (build_where ''alice'' ?v))
               (task_rows (many_db 0))))"
    and e: "total q = 0 \<longrightarrow> tasks q = [] \<and> totalPages q = 0"
    by (elim exE conjE)
  from n2 n0 have z: "total q = 0" by (simp only:)
  with e have "tasks q = []" "totalPages q = 0" by simp_all
  with run0 z
  have two: "\<exists>r db'. getUserTasks ''alice'' ?f (many_db 0) = (Inr r, db') \<and>
      total r = 0 \<and> tasks r = [] \<and> totalPages r = 0"
    by (intro exI[of _ q] exI[of _ db2] conjI)
  from one two show ?thesis by (rule conjI)
qed

text \<open>
  C7. A search whose query is empty after trimming returns the empty sequence and
  leaves the store, with its trace of calls, as it was: nothing is read.
\<close>

theorem search_blank_no_store_access:
  assumes "trim rawQuery = []"
  shows "searchTasks actor rawQuery db = (Inr [], db)"
  using assms by (simp add: searchTasks_def)

theorem search_blank_no_store_access_witness:
  "trim '''' = [] \<and> trim ''   '' = [] \<and>
   searchTasks ''alice'' '''' example_db = (Inr [], example_db) \<and>
   searchTasks ''alice'' ''   '' example_db = (Inr [], example_db) \<and>
   calls (snd (searchTasks ''alice'' ''   '' example_db)) = []"
proof -
  have a: "trim '''' = []" and b: "trim ''   '' = []" by code_simp+
  have c: "calls example_db = []" by (simp add: example_db_def)
  from search_blank_no_store_access[OF a] search_blank_no_store_access[OF b] a b c
  show ?thesis by simp
qed

text \<open>
  C8. For every actor and every query that is not blank, the search returns the
  first 50 of the matching tasks, or all of them when there are fewer, ordered by
  \<open>updatedAt\<close> descending. The bound is a constant of the function, which takes
  no parameter for it.
\<close>

theorem search_capped_and_ordered:
  assumes "trim q \<noteq> []"
  shows "\<exists>ts db'. searchTasks actor q db = (Inr ts, db') \<and>
           length ts = min 50 (length (filter (task_matches (search_where actor q)) (task_rows db))) \<and>
           length ts \<le> 50 \<and>
           sorted_wrt (\<lambda>x y. updatedAt y \<le> updatedAt x) ts"
proof -
  let ?rows = "take 50 (order_rows (Some (ByUpdatedAt, desc))
           (filter (task_matches (search_where actor q)) (task_rows db)))"
  have s: "sorted_wrt (\<lambda>x y. updatedAt y \<le> updatedAt x) ?rows"
    by (intro sorted_wrt_take_drop sorted_updatedAt_desc)
  have "sorted_wrt (\<lambda>x y. updatedAt y \<le> updatedAt x) (map (include_relations (user_rows db)) ?rows)"
    using s by (simp add: sorted_wrt_map)
  then show ?thesis
    by (simp add: searchTasks_runs[OF assms] length_order_rows)
qed

theorem search_capped_and_ordered_witness:
  "\<exists>ts db'. searchTasks ''alice'' ''report'' (many_db 60) = (Inr ts, db') \<and> length ts = 50 \<and>
      sorted_wrt (\<lambda>x y. updatedAt y \<le> updatedAt x) ts"
proof -
  have h: "trim ''report'' \<noteq> []" by code_simp
  have c: "contains_insensitive ''Quarterly report'' ''report''" by code_simp
  have m: "task_matches (search_where ''alice'' ''report'') (numbered_task n)" for n
    unfolding search_where_matches
    by (simp add: numbered_task_def example_task_def c)
  have n60: "length (filter (task_matches (search_where ''alice'' ''report''))
      (task_rows (many_db 60))) = 60"
    by (simp add: many_db_def filter_map o_def m)
  from search_capped_and_ordered[OF h, of "''alice''" "many_db 60"]
  obtain ts db' where run: "searchTasks ''alice'' ''report'' (many_db 60) = (Inr ts, db')"
    and l: "length ts = min 50 (length (filter (task_matches (search_where ''alice'' ''report''))
               (task_rows (many_db 60))))"
    and s: "sorted_wrt (\<lambda>x y. updatedAt y \<le> updatedAt x) ts"
    by (elim exE conjE)
  from l n60 have l': "length ts = 50" by simp
  from run l' s show ?thesis
    by (intro exI[of _ ts] exI[of _ db'] conjI)
qed

text \<open>
  C9. The service asks for no minimum length: for every actor and every query with
  a character that is not white space, one character included, \<open>searchTasks\<close>
  reads the store once and returns the visible tasks whose title or description
  holds the query. The minimum of two characters is the controller's: it answers
  400 to a shorter query and does not call the service.
\<close>

theorem search_service_has_no_minimum_length:
  assumes "trim q \<noteq> []"
  shows "searchTasks actor q db =
           (Inr (map (include_relations (user_rows db))
              (take 50 (order_rows (Some (ByUpdatedAt, desc))
                 (filter (\<lambda>t. (creatorId t = actor \<or> assigneeId t = Some actor) \<and>
                              (contains_insensitive (title t) q \<or>
                               (case description t of None \<Rightarrow> False | Some d \<Rightarrow> contains_insensitive d q)))
                    (task_rows db))))),
            record_call task_findMany db) \<and>
         (length (trim q) < 2 \<longrightarrow>
            controller_searchTasks (Some actor) (q_string q) db =
              (JsonError 400 ''VALIDATION_ERROR''
                 ''Search query must be at least 2 characters long'', db))"
proof -
  from assms have q: "q \<noteq> []" by (auto simp add: trim_def)
  have w: "task_matches (search_where actor q) =
      (\<lambda>t :: Task. (creatorId t = actor \<or> assigneeId t = Some actor) \<and>
                  (contains_insensitive (title t) q \<or>
                   (case description t of None \<Rightarrow> False | Some d \<Rightarrow> contains_insensitive d q)))"
    by (intro ext) (rule search_where_matches)
  from q show ?thesis
    by (simp add: searchTasks_runs[OF assms] w controller_searchTasks_def Let_def)
qed

theorem search_service_has_no_minimum_length_witness:
  "(\<exists>ts db'. searchTasks ''alice'' ''W'' example_db = (Inr ts, db') \<and>
       map id_task ts = [''t2'', ''t1''] \<and> calls db' = [task_findMany]) \<and>
   controller_searchTasks (Some ''alice'') (q_string ''W'') example_db =
     (JsonError 400 ''VALIDATION_ERROR''
        ''Search query must be at least 2 characters long'', example_db)"
proof -
  let ?ts = "map (include_relations (user_rows example_db))
              (take 50 (order_rows (Some (ByUpdatedAt, desc))
                 (filter (\<lambda>t. (creatorId t = ''alice'' \<or> assigneeId t = Some ''alice'') \<and>
                              (contains_insensitive (title t) ''W'' \<or>
                               (case description t of None \<Rightarrow> False
                                | Some d \<Rightarrow> contains_insensitive d ''W'')))
                    (task_rows example_db))))"
  have h: "trim ''W'' \<noteq> []" and l: "length (trim ''W'') < 2" by code_simp+
  have e: "map id_task ?ts = [''t2'', ''t1'']"
    by code_simp
  have c: "calls (record_call task_findMany example_db) = [task_findMany]"
    by (simp add: example_db_def)
  note inst = search_service_has_no_minimum_length[OF h, of "''alice''" example_db]
  from inst have run: "searchTasks ''alice'' ''W'' example_db =
      (Inr ?ts, record_call task_findMany example_db)"
    by (rule conjunct1)
  from inst l have ctl: "controller_searchTasks (Some ''alice'') (q_string ''W'') example_db =
     (JsonError 400 ''VALIDATION_ERROR''
        ''Search query must be at least 2 characters long'', example_db)"
    by (elim conjE impE)
  from run e c have "\<exists>ts db'. searchTasks ''alice'' ''W'' example_db = (Inr ts, db') \<and>
       map id_task ts = [''t2'', ''t1''] \<and> calls db' = [task_findMany]"
    by (intro exI[of _ ?ts] exI[of _ "record_call task_findMany example_db"] conjI)
  with ctl show ?thesis by (intro conjI)
qed

text \<open>
  C10, as stated: an actor who is neither creator nor assignee of the target task
  gets ``Task not found or access denied'' from an update whatever the patch
  holds. This fails for a patch that the schema rejects: validation comes first,
  and alice, who takes no part in \<open>t3\<close>, gets the validation error for an empty
  title.
\<close>

theorem update_denied_regardless_counterexample:
  "example_task ''t3'' ''Secret report'' ''bob'' (Some ''carol'') 30 \<in> set (task_rows example_db) \<and>
   creatorId (example_task ''t3'' ''Secret report'' ''bob'' (Some ''carol'') 30) \<noteq> ''alice'' \<and>
   assigneeId (example_task ''t3'' ''Secret report'' ''bob'' (Some ''carol'') 30) \<noteq> Some ''alice'' \<and>
   fst (updateTask 99 ''t3'' ''alice''
          \<lparr>upd_title = Some '''', upd_description = None, upd_status = None,
           upd_priority = None, upd_dueDate = None, upd_assigneeId = None\<rparr> example_db) =
     Inl (Error ''Validation error: Task title cannot be empty'') \<and>
   fst (updateTask 99 ''t3'' ''alice''
          \<lparr>upd_title = Some '''', upd_description = None, upd_status = None,
           upd_priority = None, upd_dueDate = None, upd_assigneeId = None\<rparr> example_db) \<noteq>
     Inl (Error ''Task not found or access denied'')"
  by code_simp

text \<open>
  C10, amended: for an actor who is neither creator nor assignee of the target
  task, an update with a patch that the schema accepts fails with ``Task not found
  or access denied'' after the single read of the task, and an update with a
  patch that the schema rejects fails with the validation error before any access
  to the store. In both cases the error is never ``Assigned user does not exist''
  and the users are never looked up.
\<close>

theorem update_denied_before_assignee_lookup:
  assumes hidden: "\<forall>t \<in> set (task_rows db). id_task t = taskId \<longrightarrow>
                   creatorId t \<noteq> actor \<and> assigneeId t \<noteq> Some actor"
  shows "(case taskUpdateSchema_validate patch of
            Inr v \<Rightarrow> updateTask now taskId actor patch db =
                       (Inl (Error ''Task not found or access denied''),
                        record_call task_findFirst db)
          | Inl m \<Rightarrow> updateTask now taskId actor patch db =
                       (Inl (Error (''Validation error: '' @ m)), db)) \<and>
         fst (updateTask now taskId actor patch db) \<noteq> Inl (Error ''Assigned user does not exist'') \<and>
         user_findUnique \<notin> set (calls (snd (updateTask now taskId actor patch db))) - set (calls db)"
proof (cases "taskUpdateSchema_validate patch")
  case (Inl m)
  then show ?thesis by (simp add: updateTask_def)
next
  case (Inr v)
  from updateTask_denied[OF Inr hidden] Inr show ?thesis by simp
qed

theorem update_denied_before_assignee_lookup_witness:
  "updateTask 99 ''t3'' ''alice'' (blank_patch\<lparr>upd_assigneeId := Some (Some ''nobody'')\<rparr>) example_db =
     (Inl (Error ''Task not found or access denied''), record_call task_findFirst example_db) \<and>
   updateTask 99 ''t1'' ''alice'' (blank_patch\<lparr>upd_assigneeId := Some (Some ''nobody'')\<rparr>) example_db =
     (Inl (Error ''Assigned user does not exist''),
      record_call user_findUnique (record_call task_findFirst example_db))"
proof -
  let ?p = "blank_patch\<lparr>upd_assigneeId := Some (Some ''nobody'')\<rparr>"
  have hidden: "\<forall>t \<in> set (task_rows example_db). id_task t = ''t3'' \<longrightarrow>
                   creatorId t \<noteq> ''alice'' \<and> assigneeId t \<noteq> Some ''alice''" by code_simp
  have valid: "taskUpdateSchema_validate ?p = Inr ?p" by code_simp
  have owner: "updateTask 99 ''t1'' ''alice'' ?p example_db =
     (Inl (Error ''Assigned user does not exist''),
      record_call user_findUnique (record_call task_findFirst example_db))" by code_simp
  from update_denied_before_assignee_lookup[OF hidden, where patch = ?p and now = 99] valid owner
  show ?thesis by simp
qed

end
